theory Spec2Isabelle
  imports Complex_Main
begin

section \<open>The fitness planner: validation, BMR/TDEE and plan generation\<close>

text \<open>
  A shallow embedding of the three calculation functions of \<^verbatim>\<open>test2.py\<close>:
  \<^verbatim>\<open>validate_inputs\<close>, \<^verbatim>\<open>calculate_bmr_tdee\<close> and \<^verbatim>\<open>generate_plan\<close>.

  Conventions of the model:
  \<^item> Python numbers are ideal numbers: \<open>age\<close> is an \<open>int\<close> (the form delivers an
    integer), \<open>weight\<close>, \<open>height\<close> and every derived quantity are \<open>real\<close>. The
    rounding of binary floating point is not modelled.
  \<^item> \<open>gender\<close>, \<open>activity_level\<close> and \<open>goals\<close> are only compared with ASCII literals
    and copied into messages; they are HOL strings. \<open>name\<close> is the only string whose
    characters are inspected (by \<^verbatim>\<open>str.strip\<close>); it is the list of its Unicode code
    points.
  \<^item> \<^verbatim>\<open>None\<close> is \<open>None\<close> of an option type.
  \<^item> A raised exception is \<open>Inl\<close> of the \<^verbatim>\<open>try\<close> body's result; the
    \<^verbatim>\<open>except\<close> clause is the function that wraps the body. \<^verbatim>\<open>st.error(msg)\<close> is
    the only effect; the messages shown are returned as a list, first component of the
    result.
\<close>

subsection \<open>\<^verbatim>\<open>validate_inputs\<close>\<close>

type_synonym unicode = "nat list"

text \<open>The code points that \<^verbatim>\<open>str.isspace\<close> accepts, which are the ones
  \<^verbatim>\<open>str.strip()\<close> removes from both ends.\<close>

definition isspace :: "nat \<Rightarrow> bool" where
  "isspace c \<longleftrightarrow>
     c \<in> {0x09, 0x0A, 0x0B, 0x0C, 0x0D, 0x1C, 0x1D, 0x1E, 0x1F, 0x20, 0x85, 0xA0,
          0x1680, 0x2000, 0x2001, 0x2002, 0x2003, 0x2004, 0x2005, 0x2006, 0x2007,
          0x2008, 0x2009, 0x200A, 0x2028, 0x2029, 0x202F, 0x205F, 0x3000}"

definition strip :: "unicode \<Rightarrow> unicode" where
  "strip s = rev (dropWhile isspace (rev (dropWhile isspace s)))"

definition validate_inputs :: "unicode \<Rightarrow> int \<Rightarrow> real \<Rightarrow> real \<Rightarrow> string option" where
  "validate_inputs name age height weight =
     (if strip name = [] then Some ''Please enter your name.''
      else if age < 1 then Some ''Please enter a valid age.''
      else if height < 50 then Some ''Please enter a valid height (minimum 50 cm).''
      else if weight < 30 then Some ''Please enter a valid weight (minimum 30 kg).''
      else None)"

subsection \<open>\<^verbatim>\<open>calculate_bmr_tdee\<close>\<close>

datatype exception = ValueError string

fun str_exception :: "exception \<Rightarrow> string" where
  "str_exception (ValueError msg) = msg"

text \<open>The dictionary literal of lines 31 to 37, in the order it is written.\<close>

definition activity_multipliers :: "(string \<times> real) list" where
  "activity_multipliers =
     [(''Sedentary'', 1.2),
      (''Lightly Active'', 1.375),
      (''Moderately Active'', 1.55),
      (''Very Active'', 1.725),
      (''Extremely Active'', 1.9)]"

text \<open>The body of the \<^verbatim>\<open>try\<close> block, lines 24 to 48.\<close>

definition calculate_bmr_tdee_try ::
  "real \<Rightarrow> real \<Rightarrow> int \<Rightarrow> string \<Rightarrow> string \<Rightarrow> exception + (real \<times> real)" where
  "calculate_bmr_tdee_try weight height age gender activity_level =
     (let bmr = (if gender = ''Male''
                 then 10 * weight + 6.25 * height - 5 * of_int age + 5
                 else 10 * weight + 6.25 * height - 5 * of_int age - 161)
      in case map_of activity_multipliers activity_level of
           None \<Rightarrow> Inl (ValueError (''Invalid activity level: '' @ activity_level))
         | Some m \<Rightarrow>
             (let tdee = bmr * m
              in if bmr \<le> 0 \<or> tdee \<le> 0
                 then Inl (ValueError ''Invalid calculation result'')
                 else Inr (bmr, tdee)))"

text \<open>The whole function: the \<^verbatim>\<open>except\<close> clause of lines 50 to 52 reports the
  exception and returns \<^verbatim>\<open>(None, None)\<close>.\<close>

definition calculate_bmr_tdee ::
  "real \<Rightarrow> real \<Rightarrow> int \<Rightarrow> string \<Rightarrow> string \<Rightarrow> string list \<times> (real option \<times> real option)" where
  "calculate_bmr_tdee weight height age gender activity_level =
     (case calculate_bmr_tdee_try weight height age gender activity_level of
        Inr (bmr, tdee) \<Rightarrow> ([], (Some bmr, Some tdee))
      | Inl e \<Rightarrow> ([''Error in calculations: '' @ str_exception e], (None, None)))"

subsection \<open>\<^verbatim>\<open>generate_plan\<close>\<close>

text \<open>The format specification \<^verbatim>\<open>.0f\<close>: the nearest integer, a tie going to the even
  one, written in decimal with the sign of the number in front.\<close>

definition round_half_even :: "real \<Rightarrow> int" where
  "round_half_even x =
     (let f = \<lfloor>x\<rfloor>; d = x - of_int f
      in if d < 1 / 2 then f
         else if 1 / 2 < d then f + 1
         else if even f then f else f + 1)"

fun decimal :: "nat \<Rightarrow> string" where
  "decimal n =
     (if n < 10 then [''0123456789'' ! n]
      else decimal (n div 10) @ [''0123456789'' ! (n mod 10)])"

declare decimal.simps [simp del]

definition format_0f :: "real \<Rightarrow> string" where
  "format_0f x = (if x < 0 then ''-'' else []) @ decimal (nat (round_half_even \<bar>x\<bar>))"

text \<open>The local variables at the \<^verbatim>\<open>return\<close> of line 163. \<^verbatim>\<open>macros\<close> is a
  dictionary; the General Health branch does not bind it, which the empty map stands
  for.\<close>

record plan_locals =
  calories :: real
  macros :: "string \<rightharpoonup> real"
  diet_plan :: string
  exercise_plan :: string

text \<open>Lines 60 to 161, reached when \<^verbatim>\<open>tdee\<close> is a number.\<close>

definition generate_plan_locals :: "string \<Rightarrow> real \<Rightarrow> real \<Rightarrow> plan_locals" where
  "generate_plan_locals goals tdee weight =
     (let protein_needs = weight * 2.2
      in if goals = ''Weight Loss'' then
        let calories = max 1200 (tdee - 500);
            macros = [''protein'' \<mapsto> protein_needs,
                      ''carbs'' \<mapsto> (calories * 0.40) / 4,
                      ''fats'' \<mapsto> (calories * 0.25) / 9];
            diet_plan =
              ''\<newline>'' @
              ''            Daily Targets:\<newline>'' @
              ''            - Calories: '' @
              format_0f calories @
              '' kcal\<newline>'' @
              ''            - Protein: '' @
              format_0f (the (macros ''protein'')) @
              ''g\<newline>'' @
              ''            - Carbs: '' @
              format_0f (the (macros ''carbs'')) @
              ''g\<newline>'' @
              ''            - Fats: '' @
              format_0f (the (macros ''fats'')) @
              ''g\<newline>'' @
              ''            \<newline>'' @
              ''            Focus on:\<newline>'' @
              ''            - High protein foods (lean meat, fish, eggs)\<newline>'' @
              ''            - Fiber-rich vegetables\<newline>'' @
              ''            - Complex carbohydrates\<newline>'' @
              ''            - Limited processed foods\<newline>'' @
              ''            '';
            exercise_plan =
              ''\<newline>'' @
              ''            Weekly Schedule:\<newline>'' @
              ''            - 3-4 days of moderate-intensity cardio (30-45 minutes)\<newline>'' @
              ''            - 2-3 days of strength training\<newline>'' @
              ''            - Include rest days for recovery\<newline>'' @
              ''            ''
        in \<lparr>calories = calories, macros = macros,
            diet_plan = diet_plan, exercise_plan = exercise_plan\<rparr>
      else if goals = ''Muscle Gain'' then
        let calories = tdee + 500;
            macros = [''protein'' \<mapsto> protein_needs,
                      ''carbs'' \<mapsto> (calories * 0.50) / 4,
                      ''fats'' \<mapsto> (calories * 0.25) / 9];
            diet_plan =
              ''\<newline>'' @
              ''            Daily Targets:\<newline>'' @
              ''            - Calories: '' @
              format_0f calories @
              '' kcal\<newline>'' @
              ''            - Protein: '' @
              format_0f (the (macros ''protein'')) @
              ''g\<newline>'' @
              ''            - Carbs: '' @
              format_0f (the (macros ''carbs'')) @
              ''g\<newline>'' @
              ''            - Fats: '' @
              format_0f (the (macros ''fats'')) @
              ''g\<newline>'' @
              ''            \<newline>'' @
              ''            Focus on:\<newline>'' @
              ''            - High protein foods every 3-4 hours\<newline>'' @
              ''            - Complex carbohydrates\<newline>'' @
              ''            - Healthy fats\<newline>'' @
              ''            - Pre and post-workout nutrition\<newline>'' @
              ''            '';
            exercise_plan =
              ''\<newline>'' @
              ''            Weekly Schedule:\<newline>'' @
              ''            - 4-5 days of strength training\<newline>'' @
              ''            - Focus on compound exercises\<newline>'' @
              ''            - Progressive overload\<newline>'' @
              ''            - 1-2 days of light cardio\<newline>'' @
              ''            - Proper rest between sessions\<newline>'' @
              ''            ''
        in \<lparr>calories = calories, macros = macros,
            diet_plan = diet_plan, exercise_plan = exercise_plan\<rparr>
      else if goals = ''Maintenance'' then
        let calories = tdee;
            macros = [''protein'' \<mapsto> protein_needs,
                      ''carbs'' \<mapsto> (calories * 0.45) / 4,
                      ''fats'' \<mapsto> (calories * 0.30) / 9];
            diet_plan =
              ''\<newline>'' @
              ''            Daily Targets:\<newline>'' @
              ''            - Calories: '' @
              format_0f calories @
              '' kcal\<newline>'' @
              ''            - Protein: '' @
              format_0f (the (macros ''protein'')) @
              ''g\<newline>'' @
              ''            - Carbs: '' @
              format_0f (the (macros ''carbs'')) @
              ''g\<newline>'' @
              ''            - Fats: '' @
              format_0f (the (macros ''fats'')) @
              ''g\<newline>'' @
              ''            \<newline>'' @
              ''            Focus on:\<newline>'' @
              ''            - Balanced macro distribution\<newline>'' @
              ''            - Whole, unprocessed foods\<newline>'' @
              ''            - Regular meal timing\<newline>'' @
              ''            - Adequate hydration\<newline>'' @
              ''            '';
            exercise_plan =
              ''\<newline>'' @
              ''            Weekly Schedule:\<newline>'' @
              ''            - 3-4 days of strength training\<newline>'' @
              ''            - 2-3 days of moderate cardio\<newline>'' @
              ''            - Mix of activities for variety\<newline>'' @
              ''            - Active recovery days\<newline>'' @
              ''            ''
        in \<lparr>calories = calories, macros = macros,
            diet_plan = diet_plan, exercise_plan = exercise_plan\<rparr>
      else
        let calories = tdee;
            diet_plan =
              ''\<newline>'' @
              ''            Focus on:\<newline>'' @
              ''            - Balanced, nutrient-dense meals\<newline>'' @
              ''            - Variety of fruits and vegetables\<newline>'' @
              ''            - Whole grains and lean proteins\<newline>'' @
              ''            - Mindful eating habits\<newline>'' @
              ''            '';
            exercise_plan =
              ''\<newline>'' @
              ''            Weekly Schedule:\<newline>'' @
              ''            - Daily physical activity\<newline>'' @
              ''            - Mix of cardio and strength training\<newline>'' @
              ''            - Focus on enjoyable activities\<newline>'' @
              ''            - Stay consistent with routine\<newline>'' @
              ''            ''
        in \<lparr>calories = calories, macros = Map.empty,
            diet_plan = diet_plan, exercise_plan = exercise_plan\<rparr>)"

text \<open>The body of the \<^verbatim>\<open>try\<close> block, lines 57 to 163. No statement of it raises
  on numbers, so every branch is a normal return.\<close>

definition generate_plan_try ::
  "string \<Rightarrow> real option \<Rightarrow> real \<Rightarrow> exception + (real \<times> string \<times> string)" where
  "generate_plan_try goals tdee weight =
     (case tdee of
        None \<Rightarrow> Inr (0, ''Unable to generate diet plan.'', ''Unable to generate exercise plan.'')
      | Some t \<Rightarrow>
          (let l = generate_plan_locals goals t weight
           in Inr (calories l, diet_plan l, exercise_plan l)))"

text \<open>The whole function: the \<^verbatim>\<open>except\<close> clause of lines 165 to 167 reports the
  exception and returns \<^verbatim>\<open>tdee\<close> with two fixed texts.\<close>

definition generate_plan ::
  "string \<Rightarrow> real option \<Rightarrow> real \<Rightarrow> string list \<times> (real option \<times> string \<times> string)" where
  "generate_plan goals tdee weight =
     (case generate_plan_try goals tdee weight of
        Inr (c, diet, exercise) \<Rightarrow> ([], (Some c, diet, exercise))
      | Inl e \<Rightarrow>
          ([''Error generating plan: '' @ str_exception e],
           (tdee, ''Error generating diet plan.'', ''Error generating exercise plan.'')))"

subsection \<open>What the printed figures are\<close>





section \<open>Properties\<close>

subsection \<open>Auxiliary facts\<close>

lemma strip_empty_iff: "strip s = [] \<longleftrightarrow> (\<forall>c\<in>set s. isspace c)"
proof
  assume "strip s = []"
  then have "dropWhile isspace (rev (dropWhile isspace s)) = []"
    by (simp add: strip_def)
  then have "\<forall>c\<in>set (dropWhile isspace s). isspace c"
    by (simp add: dropWhile_eq_Nil_conv)
  then have "dropWhile isspace s = []"
    by (metis dropWhile_eq_Nil_conv dropWhile_idem)
  then show "\<forall>c\<in>set s. isspace c"
    by (simp add: dropWhile_eq_Nil_conv)
next
  assume "\<forall>c\<in>set s. isspace c"
  then have d: "dropWhile isspace s = []"
    by simp
  show "strip s = []"
    unfolding strip_def d by simp
qed

lemma map_of_activity_multipliers:
  "map_of activity_multipliers lvl =
     (if lvl = ''Sedentary'' then Some 1.2
      else if lvl = ''Lightly Active'' then Some 1.375
      else if lvl = ''Moderately Active'' then Some 1.55
      else if lvl = ''Very Active'' then Some 1.725
      else if lvl = ''Extremely Active'' then Some 1.9
      else None)"
  by (simp add: activity_multipliers_def)

lemma multiplier_positive: "map_of activity_multipliers lvl = Some m \<Longrightarrow> 0 < m"
  by (auto simp: map_of_activity_multipliers split: if_splits)

lemma recognized_level_multiplier:
  assumes "lvl \<in> {''Sedentary'', ''Lightly Active'', ''Moderately Active'', ''Very Active'',
                   ''Extremely Active''}"
  shows "map_of activity_multipliers lvl \<noteq> None"
  using assms by (elim insertE emptyE) (simp_all add: map_of_activity_multipliers)

lemma calculate_bmr_tdee_try_Inr:
  assumes "calculate_bmr_tdee_try weight height age gender lvl = Inr (bmr, tdee)"
  shows "bmr = (if gender = ''Male''
                then 10 * weight + 6.25 * height - 5 * of_int age + 5
                else 10 * weight + 6.25 * height - 5 * of_int age - 161)"
    and "\<exists>m. map_of activity_multipliers lvl = Some m \<and> tdee = bmr * m"
    and "0 < bmr" and "0 < tdee"
  using assms
  by (auto simp: calculate_bmr_tdee_try_def Let_def split: option.splits if_splits)

lemma calculate_bmr_tdee_returns:
  "snd (calculate_bmr_tdee weight height age gender lvl) = (Some bmr, Some tdee) \<longleftrightarrow>
   calculate_bmr_tdee_try weight height age gender lvl = Inr (bmr, tdee)"
  by (auto simp: calculate_bmr_tdee_def split: sum.splits)

lemma generate_plan_Some:
  "generate_plan goals (Some tdee) weight =
     ([], (Some (calories (generate_plan_locals goals tdee weight)),
           diet_plan (generate_plan_locals goals tdee weight),
           exercise_plan (generate_plan_locals goals tdee weight)))"
  by (simp add: generate_plan_def generate_plan_try_def Let_def)

lemma calories_Weight_Loss:
  "calories (generate_plan_locals ''Weight Loss'' tdee weight) = max 1200 (tdee - 500)"
  by (simp add: generate_plan_locals_def Let_def)

lemma calories_Muscle_Gain:
  "calories (generate_plan_locals ''Muscle Gain'' tdee weight) = tdee + 500"
  by (simp add: generate_plan_locals_def Let_def)

lemma calories_Maintenance:
  "calories (generate_plan_locals ''Maintenance'' tdee weight) = tdee"
  by (simp add: generate_plan_locals_def Let_def)

lemma calories_General_Health:
  "calories (generate_plan_locals ''General Health'' tdee weight) = tdee"
  by (simp add: generate_plan_locals_def Let_def)

lemma locals_fallthrough:
  assumes "goals \<noteq> ''Weight Loss''" "goals \<noteq> ''Muscle Gain''" "goals \<noteq> ''Maintenance''"
  shows "generate_plan_locals goals tdee weight =
         generate_plan_locals ''General Health'' tdee weight"
  using assms by (simp add: generate_plan_locals_def Let_def)

lemma whitespace_only_iff:
  "(\<forall>c\<in>set s. isspace c) \<longleftrightarrow>
   set s \<subseteq> {0x09, 0x0A, 0x0B, 0x0C, 0x0D, 0x1C, 0x1D, 0x1E, 0x1F, 0x20, 0x85, 0xA0,
          0x1680, 0x2000, 0x2001, 0x2002, 0x2003, 0x2004, 0x2005, 0x2006, 0x2007,
          0x2008, 0x2009, 0x200A, 0x2028, 0x2029, 0x202F, 0x205F, 0x3000}"
  by (simp only: isspace_def subset_eq)












subsection \<open>The Mifflin-St Jeor equation\<close>

text \<open>
  C1 (as amended). Whenever \<^verbatim>\<open>calculate_bmr_tdee\<close> returns a pair, its first component is
  \<open>10 * weight + 6.25 * height - 5 * age + 5\<close> for gender \<^verbatim>\<open>'Male'\<close> and
  \<open>10 * weight + 6.25 * height - 5 * age - 161\<close> for gender \<^verbatim>\<open>'Female'\<close>. For every
  recognized activity level the value is 1648.75 at (Male, 70 kg, 175 cm, 30 years) and
  1345.25 at (Female, 60 kg, 165 cm, 25 years).
\<close>

theorem calculate_bmr_tdee_mifflin_st_jeor:
  "(snd (calculate_bmr_tdee weight height age ''Male'' lvl) = (Some bmr_m, Some tdee_m) \<longrightarrow>
      bmr_m = 10 * weight + 6.25 * height - 5 * of_int age + 5) \<and>
   (snd (calculate_bmr_tdee weight height age ''Female'' lvl) = (Some bmr_f, Some tdee_f) \<longrightarrow>
      bmr_f = 10 * weight + 6.25 * height - 5 * of_int age - 161) \<and>
   (lvl \<in> set (map fst activity_multipliers) \<longrightarrow>
      fst (snd (calculate_bmr_tdee 70 175 30 ''Male'' lvl)) = Some 1648.75 \<and>
      fst (snd (calculate_bmr_tdee 60 165 25 ''Female'' lvl)) = Some 1345.25)"
proof (intro conjI impI)
  assume "snd (calculate_bmr_tdee weight height age ''Male'' lvl) = (Some bmr_m, Some tdee_m)"
  then show "bmr_m = 10 * weight + 6.25 * height - 5 * of_int age + 5"
    using calculate_bmr_tdee_try_Inr(1) [of weight height age "''Male''" lvl bmr_m tdee_m]
    by (simp add: calculate_bmr_tdee_returns)
next
  assume "snd (calculate_bmr_tdee weight height age ''Female'' lvl) = (Some bmr_f, Some tdee_f)"
  then show "bmr_f = 10 * weight + 6.25 * height - 5 * of_int age - 161"
    using calculate_bmr_tdee_try_Inr(1) [of weight height age "''Female''" lvl bmr_f tdee_f]
    by (simp add: calculate_bmr_tdee_returns)
next
  assume "lvl \<in> set (map fst activity_multipliers)"
  then obtain m where m: "map_of activity_multipliers lvl = Some m"
    by (metis map_of_eq_None_iff not_Some_eq image_set)
  then have pos: "0 < m" by (rule multiplier_positive)
  show "fst (snd (calculate_bmr_tdee 70 175 30 ''Male'' lvl)) = Some 1648.75"
    using m pos by (simp add: calculate_bmr_tdee_def calculate_bmr_tdee_try_def Let_def not_le)
  show "fst (snd (calculate_bmr_tdee 60 165 25 ''Female'' lvl)) = Some 1345.25"
    using m pos by (simp add: calculate_bmr_tdee_def calculate_bmr_tdee_try_def Let_def not_le)
qed

theorem calculate_bmr_tdee_mifflin_st_jeor_witness:
  "snd (calculate_bmr_tdee 70 175 30 ''Male'' ''Sedentary'') = (Some 1648.75, Some 1978.5) \<and>
   snd (calculate_bmr_tdee 70 175 30 ''Female'' ''Sedentary'') = (Some 1482.75, Some 1779.3) \<and>
   ''Sedentary'' \<in> set (map fst activity_multipliers) \<and>
   (1648.75::real) = 10 * 70 + 6.25 * 175 - 5 * of_int 30 + 5 \<and>
   (1482.75::real) = 10 * 70 + 6.25 * 175 - 5 * of_int 30 - 161 \<and>
   fst (snd (calculate_bmr_tdee 70 175 30 ''Male'' ''Sedentary'')) = Some 1648.75 \<and>
   fst (snd (calculate_bmr_tdee 60 165 25 ''Female'' ''Sedentary'')) = Some 1345.25"
  using calculate_bmr_tdee_mifflin_st_jeor
    [of 70 175 30 "''Sedentary''" "1648.75" "1978.5" "1482.75" "1779.3"]
  by (simp add: calculate_bmr_tdee_def calculate_bmr_tdee_try_def activity_multipliers_def)

text \<open>The two values that the specification states, 1743.75 and 1427.25, are not the ones
  the equation gives.\<close>

theorem calculate_bmr_tdee_stated_values_counterexample:
  "fst (snd (calculate_bmr_tdee 70 175 30 ''Male'' ''Sedentary'')) \<noteq> Some 1743.75 \<and>
   fst (snd (calculate_bmr_tdee 60 165 25 ''Female'' ''Sedentary'')) \<noteq> Some 1427.25"
  by (simp add: calculate_bmr_tdee_def calculate_bmr_tdee_try_def activity_multipliers_def)

subsection \<open>Activity multipliers\<close>

text \<open>
  C2. For each of the five recognized activity levels, with its constant (Sedentary 1.2,
  Lightly Active 1.375, Moderately Active 1.55, Very Active 1.725, Extremely Active 1.9),
  and for every weight, height, age and gender: \<^verbatim>\<open>calculate_bmr_tdee\<close> returns a pair
  (bmr, tdee) without an error exactly when bmr is the positive value of the
  Mifflin-St Jeor equation and tdee is bmr times the constant of the level. In
  particular every tdee that is returned is the returned bmr times that constant.
\<close>

theorem calculate_bmr_tdee_multiplier:
  assumes "(lvl, m) \<in> set [(''Sedentary'', 1.2), (''Lightly Active'', 1.375), (''Moderately Active'', 1.55),
                (''Very Active'', 1.725), (''Extremely Active'', 1.9)]"
  shows "(calculate_bmr_tdee weight height age gender lvl = ([], (Some bmr, Some tdee)) \<longleftrightarrow>
            bmr = (if gender = ''Male''
                   then 10 * weight + 6.25 * height - 5 * of_int age + 5
                   else 10 * weight + 6.25 * height - 5 * of_int age - 161) \<and>
            0 < bmr \<and> tdee = bmr * m) \<and>
         (snd (calculate_bmr_tdee weight height age gender lvl) = (Some bmr, Some tdee) \<longrightarrow>
            tdee = bmr * m)"
proof -
  from assms have tbl: "map_of activity_multipliers lvl = Some m"
    by (auto simp: activity_multipliers_def)
  then have pos: "0 < m"
    by (rule multiplier_positive)
  define F where "F = (if gender = ''Male''
                   then 10 * weight + 6.25 * height - 5 * of_int age + 5
                   else 10 * weight + 6.25 * height - 5 * of_int age - 161)"
  have prod: "F * m \<le> 0 \<longleftrightarrow> F \<le> 0"
    using pos by (simp add: mult_le_0_iff not_less [symmetric] zero_less_mult_iff)
  have body: "calculate_bmr_tdee_try weight height age gender lvl =
               (if F \<le> 0 then Inl (ValueError ''Invalid calculation result'')
                else Inr (F, F * m))"
    unfolding F_def using tbl prod [unfolded F_def]
    by (simp add: calculate_bmr_tdee_try_def Let_def)
  have total: "calculate_bmr_tdee weight height age gender lvl = ([], (Some bmr, Some tdee)) \<longleftrightarrow>
                 bmr = F \<and> 0 < bmr \<and> tdee = bmr * m"
    by (auto simp: calculate_bmr_tdee_def body)
  have ret: "snd (calculate_bmr_tdee weight height age gender lvl) = (Some bmr, Some tdee) \<longrightarrow>
               tdee = bmr * m"
    by (auto simp: calculate_bmr_tdee_def body split: if_splits)
  from total ret show ?thesis
    unfolding F_def by (rule conjI)
qed

theorem calculate_bmr_tdee_multiplier_witness:
  "calculate_bmr_tdee 70 175 30 ''Male'' ''Sedentary'' = ([], (Some 1648.75, Some 1978.5)) \<and>
   calculate_bmr_tdee 70 175 30 ''Male'' ''Lightly Active'' = ([], (Some 1648.75, Some 2267.03125)) \<and>
   calculate_bmr_tdee 70 175 30 ''Male'' ''Moderately Active'' = ([], (Some 1648.75, Some 2555.5625)) \<and>
   calculate_bmr_tdee 70 175 30 ''Male'' ''Very Active'' = ([], (Some 1648.75, Some 2844.09375)) \<and>
   calculate_bmr_tdee 70 175 30 ''Male'' ''Extremely Active'' = ([], (Some 1648.75, Some 3132.625)) \<and>
   (''Very Active'', 1.725::real) \<in> set [(''Sedentary'', 1.2), (''Lightly Active'', 1.375), (''Moderately Active'', 1.55),
                (''Very Active'', 1.725), (''Extremely Active'', 1.9)] \<and>
   snd (calculate_bmr_tdee 70 175 30 ''Male'' ''Very Active'') = (Some 1648.75, Some 2844.09375) \<and>
   (2844.09375::real) = 1648.75 * 1.725"
proof -
  have t0: "(''Sedentary'', 1.2::real) \<in> set [(''Sedentary'', 1.2), (''Lightly Active'', 1.375), (''Moderately Active'', 1.55),
                (''Very Active'', 1.725), (''Extremely Active'', 1.9)]"
    by simp
  have r0: "calculate_bmr_tdee 70 175 30 ''Male'' ''Sedentary'' = ([], (Some 1648.75, Some 1978.5))"
    using conjunct1 [OF calculate_bmr_tdee_multiplier
        [OF t0, of 70 175 30 "''Male''" "1648.75" "1978.5"]]
    by simp
  have t1: "(''Lightly Active'', 1.375::real) \<in> set [(''Sedentary'', 1.2), (''Lightly Active'', 1.375), (''Moderately Active'', 1.55),
                (''Very Active'', 1.725), (''Extremely Active'', 1.9)]"
    by simp
  have r1: "calculate_bmr_tdee 70 175 30 ''Male'' ''Lightly Active'' = ([], (Some 1648.75, Some 2267.03125))"
    using conjunct1 [OF calculate_bmr_tdee_multiplier
        [OF t1, of 70 175 30 "''Male''" "1648.75" "2267.03125"]]
    by simp
  have t2: "(''Moderately Active'', 1.55::real) \<in> set [(''Sedentary'', 1.2), (''Lightly Active'', 1.375), (''Moderately Active'', 1.55),
                (''Very Active'', 1.725), (''Extremely Active'', 1.9)]"
    by simp
  have r2: "calculate_bmr_tdee 70 175 30 ''Male'' ''Moderately Active'' = ([], (Some 1648.75, Some 2555.5625))"
    using conjunct1 [OF calculate_bmr_tdee_multiplier
        [OF t2, of 70 175 30 "''Male''" "1648.75" "2555.5625"]]
    by simp
  have t3: "(''Very Active'', 1.725::real) \<in> set [(''Sedentary'', 1.2), (''Lightly Active'', 1.375), (''Moderately Active'', 1.55),
                (''Very Active'', 1.725), (''Extremely Active'', 1.9)]"
    by simp
  have r3: "calculate_bmr_tdee 70 175 30 ''Male'' ''Very Active'' = ([], (Some 1648.75, Some 2844.09375))"
    using conjunct1 [OF calculate_bmr_tdee_multiplier
        [OF t3, of 70 175 30 "''Male''" "1648.75" "2844.09375"]]
    by simp
  have t4: "(''Extremely Active'', 1.9::real) \<in> set [(''Sedentary'', 1.2), (''Lightly Active'', 1.375), (''Moderately Active'', 1.55),
                (''Very Active'', 1.725), (''Extremely Active'', 1.9)]"
    by simp
  have r4: "calculate_bmr_tdee 70 175 30 ''Male'' ''Extremely Active'' = ([], (Some 1648.75, Some 3132.625))"
    using conjunct1 [OF calculate_bmr_tdee_multiplier
        [OF t4, of 70 175 30 "''Male''" "1648.75" "3132.625"]]
    by simp
  have s: "snd (calculate_bmr_tdee 70 175 30 ''Male'' ''Very Active'') =
             (Some 1648.75, Some 2844.09375)"
    by (simp only: r3 snd_conv)
  have p: "(2844.09375::real) = 1648.75 * 1.725"
    by (rule mp [OF conjunct2 [OF calculate_bmr_tdee_multiplier
        [OF t3, of 70 175 30 "''Male''" "1648.75" "2844.09375"]] s])
  show ?thesis
    by (rule conjI [OF r0 conjI [OF r1 conjI [OF r2 conjI [OF r3 conjI [OF r4
          conjI [OF t3 conjI [OF s p]]]]]]])
qed

subsection \<open>Validated inputs and the defensive check\<close>

text \<open>
  C3 (as amended). For every input that passes \<^verbatim>\<open>validate_inputs\<close> and whose age is at
  most 90, any recognized activity level and any gender, \<^verbatim>\<open>calculate_bmr_tdee\<close> reports
  no error and returns a bmr and a tdee that are both positive.
\<close>

theorem validated_inputs_positive_result:
  assumes "validate_inputs name age height weight = None"
    and "age \<le> 90"
    and "activity_level \<in> {''Sedentary'', ''Lightly Active'', ''Moderately Active'', ''Very Active'', ''Extremely Active''}"
  shows "\<exists>bmr tdee.
           calculate_bmr_tdee weight height age gender activity_level =
             ([], (Some bmr, Some tdee)) \<and> 0 < bmr \<and> 0 < tdee"
proof -
  from assms(1) have v: "1 \<le> age" "50 \<le> height" "30 \<le> weight"
    by (auto simp: validate_inputs_def split: if_splits)
  from assms(3) have "map_of activity_multipliers activity_level \<noteq> None"
    by (rule recognized_level_multiplier)
  then obtain m where m: "map_of activity_multipliers activity_level = Some m"
    by blast
  then have pos: "0 < m" by (rule multiplier_positive)
  define bmr where "bmr = (if gender = ''Male''
                then 10 * weight + 6.25 * height - 5 * of_int age + 5
                else 10 * weight + 6.25 * height - 5 * of_int age - 161)"
  have "real_of_int age \<le> 90" using assms(2) by simp
  with v have b: "0 < bmr" by (simp add: bmr_def)
  with pos have t: "0 < bmr * m" by simp
  have "calculate_bmr_tdee weight height age gender activity_level =
          ([], (Some bmr, Some (bmr * m)))"
    using m b t unfolding bmr_def
    by (simp add: calculate_bmr_tdee_def calculate_bmr_tdee_try_def Let_def not_le)
  with b t show ?thesis by blast
qed

theorem validated_inputs_positive_result_witness:
  "validate_inputs (map of_char ''Jo'') 90 50 30 = None \<and> (90::int) \<le> 90 \<and>
   ''Sedentary'' \<in> {''Sedentary'', ''Lightly Active'', ''Moderately Active'', ''Very Active'', ''Extremely Active''} \<and>
   (\<exists>bmr tdee.
      calculate_bmr_tdee 30 50 90 ''Female'' ''Sedentary'' = ([], (Some bmr, Some tdee)) \<and>
      0 < bmr \<and> 0 < tdee)"
proof -
  have v: "validate_inputs (map of_char ''Jo'') 90 50 30 = None"
    by (simp add: validate_inputs_def strip_def isspace_def)
  have a: "(90::int) \<le> 90" by simp
  have l: "''Sedentary'' \<in> {''Sedentary'', ''Lightly Active'', ''Moderately Active'', ''Very Active'', ''Extremely Active''}"
    by simp
  show ?thesis
    by (rule conjI [OF v conjI [OF a conjI [OF l
          validated_inputs_positive_result [OF v a l, of "''Female''"]]]])
qed

text \<open>Without the bound on the age the check of line 45 is reached: a woman of 91 years,
  50 cm and 30 kg passes the validation and has a bmr of \<open>-3.5\<close>.\<close>

theorem validated_inputs_invalid_result_counterexample:
  "validate_inputs (map of_char ''Jo'') 91 50 30 = None \<and>
   calculate_bmr_tdee 30 50 91 ''Female'' ''Sedentary'' =
     ([''Error in calculations: Invalid calculation result''], (None, None))"
  by (simp add: validate_inputs_def strip_def isspace_def
      calculate_bmr_tdee_def calculate_bmr_tdee_try_def activity_multipliers_def)

subsection \<open>Target calories\<close>

text \<open>
  C4. With a tdee that is a number, the calories that \<^verbatim>\<open>generate_plan\<close> returns are
  \<open>max 1200 (tdee - 500)\<close> for Weight Loss (1200 at tdee 1000, 2000 at tdee 2500),
  \<open>tdee + 500\<close> for Muscle Gain, and \<open>tdee\<close> for Maintenance and for General Health.
\<close>

theorem generate_plan_target_calories:
  "fst (snd (generate_plan ''Weight Loss'' (Some tdee) weight)) = Some (max 1200 (tdee - 500)) \<and>
   fst (snd (generate_plan ''Weight Loss'' (Some 1000) weight)) = Some 1200 \<and>
   fst (snd (generate_plan ''Weight Loss'' (Some 2500) weight)) = Some 2000 \<and>
   fst (snd (generate_plan ''Muscle Gain'' (Some tdee) weight)) = Some (tdee + 500) \<and>
   fst (snd (generate_plan ''Maintenance'' (Some tdee) weight)) = Some tdee \<and>
   fst (snd (generate_plan ''General Health'' (Some tdee) weight)) = Some tdee"
  by (simp add: generate_plan_Some calories_Weight_Loss calories_Muscle_Gain
      calories_Maintenance calories_General_Health)

subsection \<open>Validation order\<close>

text \<open>
  C5. \<^verbatim>\<open>validate_inputs\<close> checks its four rules in order and the first failure wins: the
  name message when the name is empty after trimming, that is, when every code point of
  it is white space; then the age message when age is below 1, then the height message
  when height is below 50, then the weight message when weight is below 30, and
  \<^verbatim>\<open>None\<close> when all four rules hold.
\<close>

theorem validate_inputs_first_failure:
  "validate_inputs name age height weight =
     (if set name \<subseteq> {0x09, 0x0A, 0x0B, 0x0C, 0x0D, 0x1C, 0x1D, 0x1E, 0x1F, 0x20, 0x85, 0xA0,
          0x1680, 0x2000, 0x2001, 0x2002, 0x2003, 0x2004, 0x2005, 0x2006, 0x2007,
          0x2008, 0x2009, 0x200A, 0x2028, 0x2029, 0x202F, 0x205F, 0x3000}
      then Some ''Please enter your name.''
      else if age < 1 then Some ''Please enter a valid age.''
      else if height < 50 then Some ''Please enter a valid height (minimum 50 cm).''
      else if weight < 30 then Some ''Please enter a valid weight (minimum 30 kg).''
      else None)"
  unfolding whitespace_only_iff [symmetric] strip_empty_iff [symmetric]
  by (simp only: validate_inputs_def)

theorem validate_inputs_first_failure_witness:
  "validate_inputs [] 25 170 70 = Some ''Please enter your name.'' \<and>
   validate_inputs [0x20, 0x09, 0x0A] 25 170 70 = Some ''Please enter your name.'' \<and>
   validate_inputs [0x3000, 0xA0] 0 49 29 = Some ''Please enter your name.'' \<and>
   validate_inputs (map of_char ''Jo'') 0 170 70 = Some ''Please enter a valid age.'' \<and>
   validate_inputs (map of_char ''Jo'') 25 49 70 =
     Some ''Please enter a valid height (minimum 50 cm).'' \<and>
   validate_inputs (map of_char ''Jo'') 25 170 29 =
     Some ''Please enter a valid weight (minimum 30 kg).'' \<and>
   validate_inputs (map of_char ''Jo'') 0 49 29 = Some ''Please enter a valid age.'' \<and>
   validate_inputs (map of_char ''Jo'') 25 49 29 =
     Some ''Please enter a valid height (minimum 50 cm).'' \<and>
   validate_inputs (map of_char ''Jo'') 25 170 70 = None \<and>
   validate_inputs (map of_char '' Jo '') 25 170 70 = None"
  using validate_inputs_first_failure [of "[]" 25 170 70]
    validate_inputs_first_failure [of "[0x20, 0x09, 0x0A]" 25 170 70]
    validate_inputs_first_failure [of "[0x3000, 0xA0]" 0 49 29]
    validate_inputs_first_failure [of "map of_char ''Jo''" 0 170 70]
    validate_inputs_first_failure [of "map of_char ''Jo''" 25 49 70]
    validate_inputs_first_failure [of "map of_char ''Jo''" 25 170 29]
    validate_inputs_first_failure [of "map of_char ''Jo''" 0 49 29]
    validate_inputs_first_failure [of "map of_char ''Jo''" 25 49 29]
    validate_inputs_first_failure [of "map of_char ''Jo''" 25 170 70]
    validate_inputs_first_failure [of "map of_char '' Jo ''" 25 170 70]
  by simp

subsection \<open>The degraded result\<close>

text \<open>
  C6. For every goal and every weight, when tdee is \<^verbatim>\<open>None\<close>, \<^verbatim>\<open>generate_plan\<close> reports
  no error and returns 0 with the texts "Unable to generate diet plan." and
  "Unable to generate exercise plan.".
\<close>

theorem generate_plan_without_tdee:
  "generate_plan goals None weight =
     ([], (Some 0, ''Unable to generate diet plan.'', ''Unable to generate exercise plan.''))"
  by (simp add: generate_plan_def generate_plan_try_def)

subsection \<open>Unrecognized goals\<close>

text \<open>
  C7. For every goal outside the four recognized ones and every tdee that is a number,
  \<^verbatim>\<open>generate_plan\<close> returns what it returns for General Health: the calories are tdee,
  the texts are the General Health texts, and no error is reported.
\<close>

theorem generate_plan_unrecognized_goal:
  assumes "goals \<notin> {''Weight Loss'', ''Muscle Gain'', ''Maintenance'', ''General Health''}"
  shows "generate_plan goals (Some tdee) weight =
           generate_plan ''General Health'' (Some tdee) weight \<and>
         fst (generate_plan goals (Some tdee) weight) = [] \<and>
         snd (generate_plan goals (Some tdee) weight) =
           (Some tdee,
            ''\<newline>'' @
            ''            Focus on:\<newline>'' @
            ''            - Balanced, nutrient-dense meals\<newline>'' @
            ''            - Variety of fruits and vegetables\<newline>'' @
            ''            - Whole grains and lean proteins\<newline>'' @
            ''            - Mindful eating habits\<newline>'' @
            ''            '',
            ''\<newline>'' @
            ''            Weekly Schedule:\<newline>'' @
            ''            - Daily physical activity\<newline>'' @
            ''            - Mix of cardio and strength training\<newline>'' @
            ''            - Focus on enjoyable activities\<newline>'' @
            ''            - Stay consistent with routine\<newline>'' @
            ''            '')"
proof -
  from assms have ne:
    "goals \<noteq> ''Weight Loss''" "goals \<noteq> ''Muscle Gain''" "goals \<noteq> ''Maintenance''"
    by auto
  have eq: "generate_plan_locals goals tdee weight =
            generate_plan_locals ''General Health'' tdee weight"
    using ne by (rule locals_fallthrough)
  have gh: "generate_plan ''General Health'' (Some tdee) weight =
           ([], Some tdee,
            ''\<newline>'' @
            ''            Focus on:\<newline>'' @
            ''            - Balanced, nutrient-dense meals\<newline>'' @
            ''            - Variety of fruits and vegetables\<newline>'' @
            ''            - Whole grains and lean proteins\<newline>'' @
            ''            - Mindful eating habits\<newline>'' @
            ''            '',
            ''\<newline>'' @
            ''            Weekly Schedule:\<newline>'' @
            ''            - Daily physical activity\<newline>'' @
            ''            - Mix of cardio and strength training\<newline>'' @
            ''            - Focus on enjoyable activities\<newline>'' @
            ''            - Stay consistent with routine\<newline>'' @
            ''            '')"
    by (simp add: generate_plan_Some generate_plan_locals_def Let_def)
  have same: "generate_plan goals (Some tdee) weight =
              generate_plan ''General Health'' (Some tdee) weight"
    by (simp only: generate_plan_Some eq)
  show ?thesis
    unfolding same gh by simp
qed

theorem generate_plan_unrecognized_goal_witness:
  "''Toning'' \<notin> {''Weight Loss'', ''Muscle Gain'', ''Maintenance'', ''General Health''} \<and>
   generate_plan ''Toning'' (Some 2000) 70 = generate_plan ''General Health'' (Some 2000) 70 \<and>
   fst (generate_plan ''Toning'' (Some 2000) 70) = [] \<and>
   fst (snd (generate_plan ''Toning'' (Some 2000) 70)) = Some 2000"
proof -
  have h: "''Toning'' \<notin> {''Weight Loss'', ''Muscle Gain'', ''Maintenance'', ''General Health''}"
    by simp
  note r = generate_plan_unrecognized_goal [OF h, of 2000 70]
  have c: "fst (snd (generate_plan ''Toning'' (Some 2000) 70)) = Some 2000"
    by (simp only: conjunct2 [OF conjunct2 [OF r]] fst_conv)
  show ?thesis
    by (rule conjI [OF h conjI [OF conjunct1 [OF r]
          conjI [OF conjunct1 [OF conjunct2 [OF r]] c]]])
qed

subsection \<open>Macro grams\<close>



subsection \<open>Unrecognized activity levels\<close>

text \<open>
  C9. For every activity level that is not one of the five recognized ones, the
  \<^verbatim>\<open>try\<close> block raises the ValueError "Invalid activity level: ..." and
  \<^verbatim>\<open>calculate_bmr_tdee\<close> reports it and returns \<^verbatim>\<open>(None, None)\<close>.
\<close>

theorem calculate_bmr_tdee_invalid_activity_level:
  assumes "activity_level \<notin> {''Sedentary'', ''Lightly Active'', ''Moderately Active'', ''Very Active'', ''Extremely Active''}"
  shows "calculate_bmr_tdee_try weight height age gender activity_level =
           Inl (ValueError (''Invalid activity level: '' @ activity_level)) \<and>
         calculate_bmr_tdee weight height age gender activity_level =
           ([''Error in calculations: Invalid activity level: '' @ activity_level],
            (None, None))"
  using assms
  by (simp add: calculate_bmr_tdee_def calculate_bmr_tdee_try_def
      map_of_activity_multipliers Let_def)

theorem calculate_bmr_tdee_invalid_activity_level_witness:
  "''Toning'' \<notin> {''Sedentary'', ''Lightly Active'', ''Moderately Active'', ''Very Active'', ''Extremely Active''} \<and>
   calculate_bmr_tdee_try 70 175 30 ''Male'' ''Toning'' =
     Inl (ValueError ''Invalid activity level: Toning'') \<and>
   calculate_bmr_tdee 70 175 30 ''Male'' ''Toning'' =
     ([''Error in calculations: Invalid activity level: Toning''], (None, None))"
proof -
  have h: "''Toning'' \<notin> {''Sedentary'', ''Lightly Active'', ''Moderately Active'', ''Very Active'', ''Extremely Active''}"
    by simp
  show ?thesis
    using h calculate_bmr_tdee_invalid_activity_level [OF h, of 70 175 30 "''Male''"]
    by simp
qed

subsection \<open>Dispatch on the gender\<close>

text \<open>
  C10. For every gender string other than \<^verbatim>\<open>'Male'\<close>, \<^verbatim>\<open>calculate_bmr_tdee\<close> behaves as
  for \<^verbatim>\<open>'Female'\<close>: with a recognized activity level and a positive value of
  \<open>10 * weight + 6.25 * height - 5 * age - 161\<close> it reports no error and returns that
  value as bmr.
\<close>

theorem calculate_bmr_tdee_gender_dispatch:
  assumes "gender \<noteq> ''Male''"
  shows "calculate_bmr_tdee weight height age gender activity_level =
           calculate_bmr_tdee weight height age ''Female'' activity_level \<and>
         (\<forall>m. map_of activity_multipliers activity_level = Some m \<and>
               0 < 10 * weight + 6.25 * height - 5 * of_int age - 161 \<longrightarrow>
               calculate_bmr_tdee weight height age gender activity_level =
                 ([], (Some (10 * weight + 6.25 * height - 5 * of_int age - 161),
                       Some ((10 * weight + 6.25 * height - 5 * of_int age - 161) * m))))"
proof (intro conjI allI impI)
  show "calculate_bmr_tdee weight height age gender activity_level =
           calculate_bmr_tdee weight height age ''Female'' activity_level"
    using assms by (simp add: calculate_bmr_tdee_def calculate_bmr_tdee_try_def)
next
  fix m
  assume a: "map_of activity_multipliers activity_level = Some m \<and>
               0 < 10 * weight + 6.25 * height - 5 * of_int age - 161"
  then have "0 < m"
    using multiplier_positive by blast
  with a have "0 < (10 * weight + 6.25 * height - 5 * of_int age - 161) * m"
    by simp
  with a assms show "calculate_bmr_tdee weight height age gender activity_level =
                 ([], (Some (10 * weight + 6.25 * height - 5 * of_int age - 161),
                       Some ((10 * weight + 6.25 * height - 5 * of_int age - 161) * m)))"
    by (simp add: calculate_bmr_tdee_def calculate_bmr_tdee_try_def Let_def not_le)
qed

theorem calculate_bmr_tdee_gender_dispatch_witness:
  "''male'' \<noteq> ''Male'' \<and>
   map_of activity_multipliers ''Sedentary'' = Some 1.2 \<and>
   (0::real) < 10 * 60 + 6.25 * 165 - 5 * of_int 25 - 161 \<and>
   calculate_bmr_tdee 60 165 25 ''male'' ''Sedentary'' =
     calculate_bmr_tdee 60 165 25 ''Female'' ''Sedentary'' \<and>
   calculate_bmr_tdee 60 165 25 ''male'' ''Sedentary'' = ([], (Some 1345.25, Some 1614.3))"
proof -
  have h: "''male'' \<noteq> ''Male''" by simp
  have m: "map_of activity_multipliers ''Sedentary'' = Some 1.2"
    by (simp add: activity_multipliers_def)
  have p: "(0::real) < 10 * 60 + 6.25 * 165 - 5 * of_int 25 - 161" by simp
  from calculate_bmr_tdee_gender_dispatch [OF h, of 60 165 25 "''Sedentary''"] m p
  have "calculate_bmr_tdee 60 165 25 ''male'' ''Sedentary'' =
          ([], (Some (10 * 60 + 6.25 * 165 - 5 * of_int 25 - 161),
                Some ((10 * 60 + 6.25 * 165 - 5 * of_int 25 - 161) * 1.2)))"
    by blast
  then have r: "calculate_bmr_tdee 60 165 25 ''male'' ''Sedentary'' =
                  ([], (Some 1345.25, Some 1614.3))"
    by simp
  show ?thesis
    by (rule conjI [OF h conjI [OF m conjI [OF p conjI [OF conjunct1
          [OF calculate_bmr_tdee_gender_dispatch [OF h, of 60 165 25 "''Sedentary''"]] r]]]])
qed

end
